theory Spec2Isabelle
  imports Complex_Main
begin

section \<open>The image region analyzer of \<^verbatim>\<open>image_analyzer.py\<close>\<close>

text \<open>
  The program is a Tk application: the user loads an image, drags rectangles over it, and
  for every rectangle the mean pixel value is shown, compared with the mean of the first
  rectangle (the reference). The model below follows class \<^verbatim>\<open>ImageAnalyzer\<close> method by
  method, passing the object's fields as an explicit state. Of the Tk widgets it keeps what
  the methods read back or show as results: the labels of the results frame and the
  identifiers the canvas gives to its items. The layout of the window, the shapes and the
  positions of the canvas items are left out.
\<close>

subsection \<open>Floating-point results\<close>

text \<open>
  \<^verbatim>\<open>np.mean\<close> returns a float, which is NaN on an empty array. A float is modelled as
  either NaN or a real number; the rounding of the 64-bit format is not modelled. Every
  comparison with NaN is false and every arithmetic operation on NaN gives NaN.
\<close>

datatype pyfloat = NaN | Fin real

fun fsub :: "pyfloat \<Rightarrow> pyfloat \<Rightarrow> pyfloat" where
  "fsub (Fin a) (Fin b) = Fin (a - b)"
| "fsub _ _ = NaN"

fun fabs :: "pyfloat \<Rightarrow> pyfloat" where
  "fabs (Fin a) = Fin \<bar>a\<bar>"
| "fabs NaN = NaN"

fun flt :: "pyfloat \<Rightarrow> real \<Rightarrow> bool" where
  "flt (Fin a) c = (a < c)"
| "flt NaN c = False"

subsection \<open>The pixel array\<close>

text \<open>
  \<^verbatim>\<open>np.array(self.image)\<close> has shape (H, W) or (H, W, C). It is modelled as its two
  leading dimensions and the rows of pixels, a pixel being the list of its channel values
  (one value for a greyscale image).
\<close>

record ndarray =
  shape0 :: nat
  shape1 :: nat
  rows :: "int list list list"

definition wf_ndarray :: "ndarray \<Rightarrow> bool" where
  "wf_ndarray a \<longleftrightarrow>
     length (rows a) = shape0 a \<and> list_all (\<lambda>row. length row = shape1 a) (rows a)"

text \<open>
  A Python slice \<^verbatim>\<open>xs[start:stop]\<close>: a negative index counts from the end, and both
  indices are then cut to the range from 0 to the length.
\<close>

definition norm_index :: "int \<Rightarrow> int \<Rightarrow> int" where
  "norm_index n i = (if i < 0 then max 0 (i + n) else min i n)"

definition py_slice :: "'a list \<Rightarrow> int \<Rightarrow> int \<Rightarrow> 'a list" where
  "py_slice xs start stop =
     (let n = int (length xs); s = norm_index n start; e = norm_index n stop
      in take (nat (e - s)) (drop (nat s) xs))"

text \<open>\<^verbatim>\<open>img_array[y1:y2, x1:x2]\<close>\<close>

definition slice2 :: "ndarray \<Rightarrow> int \<Rightarrow> int \<Rightarrow> int \<Rightarrow> int \<Rightarrow> int list list list" where
  "slice2 a y1 y2 x1 x2 = map (\<lambda>row. py_slice row x1 x2) (py_slice (rows a) y1 y2)"

definition flatten :: "int list list list \<Rightarrow> int list" where
  "flatten g = concat (concat g)"

text \<open>\<^verbatim>\<open>np.mean\<close> of all the values of an array; NaN (and a warning, no exception) when
  there is none.\<close>

definition np_mean :: "int list \<Rightarrow> pyfloat" where
  "np_mean vs = (if vs = [] then NaN else Fin (real_of_int (sum_list vs) / real (length vs)))"

subsection \<open>Regions\<close>

text \<open>A stored rectangle is the tuple \<^verbatim>\<open>(x1, y1, x2, y2, color, canvas_id)\<close>.\<close>

type_synonym rect = "int \<times> int \<times> int \<times> int \<times> string \<times> nat"

fun canvas_id :: "rect \<Rightarrow> nat" where
  "canvas_id (x1, y1, x2, y2, color, cid) = cid"

fun color_of :: "rect \<Rightarrow> string" where
  "color_of (x1, y1, x2, y2, color, cid) = color"

fun bounds :: "rect \<Rightarrow> int \<times> int \<times> int \<times> int" where
  "bounds (x1, y1, x2, y2, color, cid) = (x1, y1, x2, y2)"

text \<open>
  Lines 153--154 and 170--171: the bounds cut to the image,
  \<^verbatim>\<open>x1, y1 = max(0, int(x1)), max(0, int(y1))\<close> and
  \<^verbatim>\<open>x2, y2 = min(shape[1], int(x2)), min(shape[0], int(y2))\<close>.
  The coordinates are whole pixels, so \<^verbatim>\<open>int\<close> leaves them as they are.
\<close>

fun clamp_bounds :: "ndarray \<Rightarrow> int \<times> int \<times> int \<times> int \<Rightarrow> int \<times> int \<times> int \<times> int" where
  "clamp_bounds a (x1, y1, x2, y2) =
     (max 0 x1, max 0 y1, min (int (shape1 a)) x2, min (int (shape0 a)) y2)"

text \<open>Lines 155--156 and 174--175: the mean of the slice the clamped bounds select.\<close>

definition region_mean :: "ndarray \<Rightarrow> int \<times> int \<times> int \<times> int \<Rightarrow> pyfloat" where
  "region_mean a b =
     (case clamp_bounds a b of (x1, y1, x2, y2) \<Rightarrow> np_mean (flatten (slice2 a y1 y2 x1 x2)))"

subsection \<open>The application state\<close>

datatype classification = MATCH | MISMATCH

text \<open>
  The widgets of the results frame. A region's label carries its number, colour, mean and,
  when a reference mean is available, the difference from it; the marker drawn on the
  canvas for the region in the same loop iteration (the green text for a difference below
  the threshold is \<open>MATCH\<close>, the red one \<open>MISMATCH\<close>) is recorded with it.
\<close>

datatype label =
    RefLabel pyfloat
  | RegionLabel nat string pyfloat "pyfloat option" "classification option"

record analyzer =
  image :: "ndarray option"
  rectangles :: "rect list"
  current_rect :: "nat option"
  start_x :: "int option"
  start_y :: "int option"
  current_color_index :: nat
  reference_rect_id :: "nat option"
  reference_avg :: "pyfloat option"
  results_frame :: "label list"
  canvas_next :: nat

definition colors :: "string list" where
  "colors = [''red'', ''blue'', ''green'', ''yellow'', ''purple'']"

text \<open>
  The state \<^verbatim>\<open>__init__\<close> leaves. The canvas is modelled by the identifier its next
  item gets: Tk numbers the items of a canvas from 1 and never reuses a number.
\<close>

definition init :: analyzer where
  "init = \<lparr> image = None, rectangles = [], current_rect = None, start_x = None,
            start_y = None, current_color_index = 0, reference_rect_id = None,
            reference_avg = None, results_frame = [], canvas_next = 1 \<rparr>"

text \<open>Python's truth value of an optional canvas identifier: None and 0 are false
  (\<^verbatim>\<open>if self.current_rect:\<close> in \<open>on_release\<close> is written out as this test).\<close>

fun truthy :: "nat option \<Rightarrow> bool" where
  "truthy None = False"
| "truthy (Some n) = (n \<noteq> 0)"

text \<open>\<^verbatim>\<open>canvas.create_...\<close>: the item gets the next identifier.\<close>

definition canvas_create :: "analyzer \<Rightarrow> analyzer" where
  "canvas_create s = s\<lparr>canvas_next := Suc (canvas_next s)\<rparr>"

subsection \<open>\<^verbatim>\<open>update_averages\<close>\<close>

text \<open>Lines 149--161: the reference mean, when the reference rectangle is in the store.\<close>

definition update_reference :: "ndarray \<Rightarrow> analyzer \<Rightarrow> analyzer" where
  "update_reference a s =
     (if truthy (reference_rect_id s) then
        (case find (\<lambda>r. Some (canvas_id r) = reference_rect_id s) (rectangles s) of
           None \<Rightarrow> s
         | Some ref_rect \<Rightarrow>
             (let avg = region_mean a (bounds ref_rect)
              in s\<lparr>reference_avg := Some avg,
                    results_frame := results_frame s @ [RefLabel avg]\<rparr>))
      else s)"

text \<open>Lines 170--190: one iteration of the loop for a rectangle that is not the reference.\<close>

definition analyse_region :: "ndarray \<Rightarrow> pyfloat option \<Rightarrow> nat \<Rightarrow> rect \<Rightarrow> label" where
  "analyse_region a ref i r =
     (let avg_value = region_mean a (bounds r); color = color_of r
      in case ref of
           Some reference \<Rightarrow>
             (let diff = fabs (fsub avg_value reference)
              in RegionLabel (i + 1) color avg_value (Some diff)
                   (Some (if flt diff 3 then MATCH else MISMATCH)))
         | None \<Rightarrow> RegionLabel (i + 1) color avg_value None None)"

text \<open>Lines 164--190: the loop over \<^verbatim>\<open>enumerate(self.rectangles)\<close>. The reference
  rectangle is skipped; for every other one a marker is created on the canvas when a
  reference mean is available, and a label is added to the results frame.\<close>

fun averages_loop :: "ndarray \<Rightarrow> (nat \<times> rect) list \<Rightarrow> analyzer \<Rightarrow> analyzer" where
  "averages_loop a [] s = s"
| "averages_loop a ((i, r) # irs) s =
     (if Some (canvas_id r) = reference_rect_id s then averages_loop a irs s
      else
        (let s' = (if reference_avg s \<noteq> None then canvas_create s else s)
         in averages_loop a irs
              (s'\<lparr>results_frame :=
                    results_frame s' @ [analyse_region a (reference_avg s) i r]\<rparr>)))"

text \<open>\<^verbatim>\<open>enumerate\<close>: the elements with their positions, counted from 0.\<close>

definition enumerate_py :: "'a list \<Rightarrow> (nat \<times> 'a) list" where
  "enumerate_py xs = zip [0..<length xs] xs"

text \<open>Lines 136--190: the labels shown before are destroyed; without an image or without
  rectangles nothing else happens.\<close>

definition update_averages :: "analyzer \<Rightarrow> analyzer" where
  "update_averages s =
     (let s0 = s\<lparr>results_frame := []\<rparr>
      in case image s0 of
           None \<Rightarrow> s0
         | Some a \<Rightarrow>
             if rectangles s0 = [] then s0
             else averages_loop a (enumerate_py (rectangles s0)) (update_reference a s0))"

subsection \<open>The event handlers\<close>

datatype error = TypeError | IndexError

text \<open>\<^verbatim>\<open>self.colors[self.current_color_index]\<close>\<close>

definition current_color :: "analyzer \<Rightarrow> error + string" where
  "current_color s =
     (if current_color_index s < length colors then Inr (colors ! current_color_index s)
      else Inl IndexError)"

text \<open>Lines 125--134. The rectangles are also deleted from the canvas, whose items the model
  does not keep.\<close>

definition clear_rectangles :: "analyzer \<Rightarrow> analyzer" where
  "clear_rectangles s =
     update_averages (s\<lparr>rectangles := [], reference_rect_id := None, reference_avg := None\<rparr>)"

text \<open>
  Lines 65--75. The file dialog is cancelled, or \<^verbatim>\<open>Image.open\<close> raises, or the image is
  opened but cannot be displayed (\<^verbatim>\<open>ImageTk.PhotoImage\<close> raises after \<^verbatim>\<open>self.image\<close> is
  assigned), or the image is loaded. An exception raised in a Tk callback is reported and
  the application goes on with the state reached.
\<close>

datatype load_outcome = Cancelled | OpenFailed | PhotoFailed ndarray | Loaded ndarray

fun load_image :: "analyzer \<Rightarrow> load_outcome \<Rightarrow> analyzer" where
  "load_image s Cancelled = s"
| "load_image s OpenFailed = s"
| "load_image s (PhotoFailed a) = s\<lparr>image := Some a\<rparr>"
| "load_image s (Loaded a) = clear_rectangles (canvas_create (s\<lparr>image := Some a\<rparr>))"

text \<open>Lines 77--86. The rectangle of an unfinished drag is deleted from the canvas and a
  new one is created, which gets the next identifier.\<close>

definition on_press :: "analyzer \<Rightarrow> int \<Rightarrow> int \<Rightarrow> error + analyzer" where
  "on_press s x y =
     (let s1 = s\<lparr>start_x := Some x, start_y := Some y\<rparr>
      in case current_color s1 of
           Inl e \<Rightarrow> Inl e
         | Inr c \<Rightarrow> Inr ((canvas_create s1)\<lparr>current_rect := Some (canvas_next s1)\<rparr>))"

text \<open>Lines 88--93: only the shape on the canvas changes.\<close>

definition on_drag :: "analyzer \<Rightarrow> int \<Rightarrow> int \<Rightarrow> analyzer" where
  "on_drag s x y = s"

text \<open>Lines 95--123. Nothing happens unless a rectangle is being drawn. The first rectangle
  of the store becomes the reference and gets a text on the canvas. \<^verbatim>\<open>min\<close> of None and
  a number raises TypeError.\<close>

definition on_release :: "analyzer \<Rightarrow> int \<Rightarrow> int \<Rightarrow> error + analyzer" where
  "on_release s end_x end_y =
     (case current_rect s of
        None \<Rightarrow> Inr s
      | Some cur \<Rightarrow>
          if cur = 0 then Inr s
          else
            (case (start_x s, start_y s) of
               (Some sx, Some sy) \<Rightarrow>
                 (let s1 = (if rectangles s = []
                            then canvas_create (s\<lparr>reference_rect_id := Some cur\<rparr>)
                            else s)
                  in case current_color s1 of
                       Inl e \<Rightarrow> Inl e
                     | Inr c \<Rightarrow>
                         (let s2 = s1\<lparr>rectangles := rectangles s1 @
                                       [(min sx end_x, min sy end_y, max sx end_x,
                                         max sy end_y, c, cur)],
                                      current_rect := None\<rparr>;
                              s3 = update_averages s2
                          in Inr (s3\<lparr>current_color_index :=
                                        (current_color_index s3 + 1) mod length colors\<rparr>)))
             | _ \<Rightarrow> Inl TypeError))"

datatype event =
    LoadImage load_outcome
  | Press int int
  | Drag int int
  | Release int int
  | ClearRectangles

fun step :: "analyzer \<Rightarrow> event \<Rightarrow> error + analyzer" where
  "step s (LoadImage out) = Inr (load_image s out)"
| "step s (Press x y) = on_press s x y"
| "step s (Drag x y) = Inr (on_drag s x y)"
| "step s (Release x y) = on_release s x y"
| "step s ClearRectangles = Inr (clear_rectangles s)"

text \<open>The application run on a sequence of events; it stops at the first exception.\<close>

fun run_from :: "analyzer \<Rightarrow> event list \<Rightarrow> error + analyzer" where
  "run_from s [] = Inr s"
| "run_from s (e # es) = (case step s e of Inl err \<Rightarrow> Inl err | Inr s' \<Rightarrow> run_from s' es)"

definition run :: "event list \<Rightarrow> error + analyzer" where
  "run es = run_from init es"

subsection \<open>Auxiliary notions\<close>

text \<open>The test of line 166, on an enumerated rectangle: it is not the reference.\<close>

definition non_reference :: "nat option \<Rightarrow> nat \<times> rect \<Rightarrow> bool" where
  "non_reference rid p \<longleftrightarrow> Some (canvas_id (snd p)) \<noteq> rid"

text \<open>The image of the specification's scenarios: four rows \<^verbatim>\<open>[0, 0, 10, 10]\<close>.\<close>

definition example_image :: ndarray where
  "example_image =
     \<lparr>shape0 = 4, shape1 = 4,
      rows = [[[0], [0], [10], [10]], [[0], [0], [10], [10]],
              [[0], [0], [10], [10]], [[0], [0], [10], [10]]]\<rparr>"



text \<open>
  \<open>scenario_state\<close> holds the example image with the reference region (0,0,2,4), the
  region (2,0,4,4) and the region (5,5,6,6), which lies outside the image. In
  \<open>empty_reference_state\<close> the reference region itself lies outside the image.
\<close>

definition scenario_state :: analyzer where
  "scenario_state =
     \<lparr> image = Some example_image,
       rectangles = [(0, 0, 2, 4, ''red'', 2), (2, 0, 4, 4, ''blue'', 4),
                     (5, 5, 6, 6, ''green'', 6)],
       current_rect = None, start_x = Some 5, start_y = Some 5, current_color_index = 2,
       reference_rect_id = Some 2, reference_avg = Some (Fin 0), results_frame = [],
       canvas_next = 7 \<rparr>"

definition empty_reference_state :: analyzer where
  "empty_reference_state =
     \<lparr> image = Some example_image,
       rectangles = [(5, 5, 6, 6, ''red'', 2), (2, 0, 4, 4, ''blue'', 4)],
       current_rect = None, start_x = Some 2, start_y = Some 0, current_color_index = 1,
       reference_rect_id = Some 2, reference_avg = Some NaN, results_frame = [],
       canvas_next = 5 \<rparr>"

text \<open>
  \<open>no_image_state\<close> is the state after a rectangle is drawn before any image is loaded;
  \<open>covering_state\<close> holds the example image and one region that extends beyond it on
  every side.
\<close>

definition no_image_state :: analyzer where
  "no_image_state =
     \<lparr> image = None, rectangles = [(0, 0, 2, 4, ''red'', 1)],
       current_rect = None, start_x = Some 0, start_y = Some 0, current_color_index = 1,
       reference_rect_id = Some 1, reference_avg = None, results_frame = [],
       canvas_next = 3 \<rparr>"

definition covering_state :: analyzer where
  "covering_state =
     \<lparr> image = Some example_image, rectangles = [(- 1, - 2, 7, 9, ''red'', 2)],
       current_rect = None, start_x = Some (- 1), start_y = Some (- 2),
       current_color_index = 0, reference_rect_id = Some 2, reference_avg = None,
       results_frame = [], canvas_next = 4 \<rparr>"

text \<open>
  \<open>negative_region_state\<close> is the state after the example image is loaded and one region is
  dragged from (-3,-3) to (-1,-1), which lies outside the image, above and to the left.
\<close>

definition negative_region_state :: analyzer where
  "negative_region_state =
     \<lparr> image = Some example_image, rectangles = [(- 3, - 3, - 1, - 1, ''red'', 2)],
       current_rect = None, start_x = Some (- 3), start_y = Some (- 3),
       current_color_index = 1, reference_rect_id = Some 2,
       reference_avg = Some (Fin (10 / 3)), results_frame = [RefLabel (Fin (10 / 3))],
       canvas_next = 4 \<rparr>"

text \<open>
  The invariant of the states the application reaches: canvas identifiers are positive,
  below the next one to be given out and pairwise different; a rectangle being drawn has its
  start point; the colour index is in range; the reference is the first stored rectangle,
  and there is none, nor a reference mean, when the store is empty; the bounds of every
  stored rectangle are ordered.
\<close>

fun ordered :: "rect \<Rightarrow> bool" where
  "ordered (x1, y1, x2, y2, color, cid) \<longleftrightarrow> x1 \<le> x2 \<and> y1 \<le> y2"

definition store_inv :: "analyzer \<Rightarrow> bool" where
  "store_inv s \<longleftrightarrow>
     0 < canvas_next s \<and>
     (\<forall>r \<in> set (rectangles s). canvas_id r \<noteq> 0 \<and> canvas_id r < canvas_next s) \<and>
     distinct (map canvas_id (rectangles s)) \<and>
     (case current_rect s of
        None \<Rightarrow> True
      | Some cur \<Rightarrow> cur \<noteq> 0 \<and> cur < canvas_next s \<and> cur \<notin> set (map canvas_id (rectangles s)) \<and>
                    start_x s \<noteq> None \<and> start_y s \<noteq> None) \<and>
     current_color_index s < length colors \<and>
     reference_rect_id s = (case rectangles s of [] \<Rightarrow> None | r # _ \<Rightarrow> Some (canvas_id r)) \<and>
     (rectangles s = [] \<longrightarrow> reference_avg s = None) \<and>
     (\<forall>r \<in> set (rectangles s). ordered r)"

text \<open>
  \<open>two_regions_state\<close> is the state after the example image is loaded and two regions are
  drawn, the first from (0,0) to (2,4), the second backwards from (4,4) to (2,0).
\<close>

definition two_regions_events :: "event list" where
  "two_regions_events =
     [LoadImage (Loaded example_image), Press 0 0, Release 2 4, Press 4 4, Drag 3 2, Release 2 0]"

definition two_regions_state :: analyzer where
  "two_regions_state =
     \<lparr> image = Some example_image,
       rectangles = [(0, 0, 2, 4, ''red'', 2), (2, 0, 4, 4, ''blue'', 4)],
       current_rect = None, start_x = Some 4, start_y = Some 4, current_color_index = 2,
       reference_rect_id = Some 2, reference_avg = Some (Fin 0),
       results_frame = [RefLabel (Fin 0),
         RegionLabel 2 ''blue'' (Fin 10) (Some (Fin 10)) (Some MISMATCH)],
       canvas_next = 6 \<rparr>"

section \<open>Properties\<close>

subsection \<open>What \<^verbatim>\<open>update_averages\<close> changes\<close>

lemma canvas_create_fields [simp]:
  "image (canvas_create s) = image s"
  "rectangles (canvas_create s) = rectangles s"
  "current_rect (canvas_create s) = current_rect s"
  "start_x (canvas_create s) = start_x s"
  "start_y (canvas_create s) = start_y s"
  "current_color_index (canvas_create s) = current_color_index s"
  "reference_rect_id (canvas_create s) = reference_rect_id s"
  "reference_avg (canvas_create s) = reference_avg s"
  "results_frame (canvas_create s) = results_frame s"
  "canvas_next (canvas_create s) = Suc (canvas_next s)"
  by (simp_all add: canvas_create_def)

lemma averages_loop_fields:
  "image (averages_loop a irs s) = image s \<and>
   rectangles (averages_loop a irs s) = rectangles s \<and>
   current_rect (averages_loop a irs s) = current_rect s \<and>
   start_x (averages_loop a irs s) = start_x s \<and>
   start_y (averages_loop a irs s) = start_y s \<and>
   current_color_index (averages_loop a irs s) = current_color_index s \<and>
   reference_rect_id (averages_loop a irs s) = reference_rect_id s \<and>
   reference_avg (averages_loop a irs s) = reference_avg s \<and>
   canvas_next s \<le> canvas_next (averages_loop a irs s)"
proof (induction irs arbitrary: s)
  case Nil
  show ?case by simp
next
  case (Cons p irs)
  obtain i r where p: "p = (i, r)" by (cases p)
  show ?case
  proof (cases "Some (canvas_id r) = reference_rect_id s")
    case True
    with Cons p show ?thesis by simp
  next
    case False
    let ?s' = "if reference_avg s \<noteq> None then canvas_create s else s"
    let ?t = "?s'\<lparr>results_frame := results_frame ?s' @ [analyse_region a (reference_avg s) i r]\<rparr>"
    have eq: "averages_loop a (p # irs) s = averages_loop a irs ?t"
      using False p by (simp add: Let_def)
    have t: "image ?t = image s" "rectangles ?t = rectangles s" "current_rect ?t = current_rect s"
      "start_x ?t = start_x s" "start_y ?t = start_y s"
      "current_color_index ?t = current_color_index s"
      "reference_rect_id ?t = reference_rect_id s" "reference_avg ?t = reference_avg s"
      "canvas_next s \<le> canvas_next ?t"
      by simp_all
    from Cons.IH [of ?t] show ?thesis
      unfolding eq t using t(9) by auto
  qed
qed

lemma averages_loop_results:
  "results_frame (averages_loop a irs s) =
     results_frame s @
     map (\<lambda>p. analyse_region a (reference_avg s) (fst p) (snd p))
       (filter (non_reference (reference_rect_id s)) irs)"
proof (induction irs arbitrary: s)
  case Nil
  show ?case by simp
next
  case (Cons p irs)
  obtain i r where p: "p = (i, r)" by (cases p)
  show ?case
  proof (cases "Some (canvas_id r) = reference_rect_id s")
    case True
    with Cons p show ?thesis by (simp add: non_reference_def)
  next
    case False
    let ?s' = "if reference_avg s \<noteq> None then canvas_create s else s"
    let ?t = "?s'\<lparr>results_frame := results_frame ?s' @ [analyse_region a (reference_avg s) i r]\<rparr>"
    have eq: "averages_loop a (p # irs) s = averages_loop a irs ?t"
      using False p by (simp add: Let_def)
    have t: "reference_rect_id ?t = reference_rect_id s" "reference_avg ?t = reference_avg s"
      "results_frame ?t = results_frame s @ [analyse_region a (reference_avg s) i r]"
      by simp_all
    have f: "filter (non_reference (reference_rect_id s)) (p # irs) =
               p # filter (non_reference (reference_rect_id s)) irs"
      using False p by (simp add: non_reference_def)
    show ?thesis
      unfolding eq Cons.IH [of ?t] t f using p by simp
  qed
qed

lemma update_reference_fields [simp]:
  "image (update_reference a s) = image s"
  "rectangles (update_reference a s) = rectangles s"
  "current_rect (update_reference a s) = current_rect s"
  "start_x (update_reference a s) = start_x s"
  "start_y (update_reference a s) = start_y s"
  "current_color_index (update_reference a s) = current_color_index s"
  "reference_rect_id (update_reference a s) = reference_rect_id s"
  "canvas_next (update_reference a s) = canvas_next s"
  by (simp_all add: update_reference_def Let_def split: option.splits)

lemma update_reference_results:
  "results_frame (update_reference a s) = results_frame s \<or>
   results_frame (update_reference a s) =
     results_frame s @ [RefLabel (the (reference_avg (update_reference a s)))]"
  by (simp add: update_reference_def Let_def split: option.splits)

lemma update_averages_fields [simp]:
  "image (update_averages s) = image s"
  "rectangles (update_averages s) = rectangles s"
  "current_rect (update_averages s) = current_rect s"
  "start_x (update_averages s) = start_x s"
  "start_y (update_averages s) = start_y s"
  "current_color_index (update_averages s) = current_color_index s"
  "reference_rect_id (update_averages s) = reference_rect_id s"
  by (simp_all add: update_averages_def Let_def averages_loop_fields split: option.splits)

lemma update_averages_canvas_next: "canvas_next s \<le> canvas_next (update_averages s)"
proof (cases "image s")
  case None
  then show ?thesis by (simp add: update_averages_def)
next
  case (Some a)
  have "canvas_next (update_reference a (s\<lparr>results_frame := []\<rparr>))
          \<le> canvas_next (averages_loop a (enumerate_py (rectangles s))
                            (update_reference a (s\<lparr>results_frame := []\<rparr>)))"
    using averages_loop_fields by blast
  with Some show ?thesis by (simp add: update_averages_def Let_def)
qed

lemma update_averages_no_regions:
  "image s = None \<or> rectangles s = [] \<Longrightarrow> update_averages s = s\<lparr>results_frame := []\<rparr>"
  by (auto simp: update_averages_def Let_def split: option.splits)

lemma update_averages_results:
  assumes "image s = Some a" and "rectangles s \<noteq> []"
  shows "results_frame (update_averages s) =
           results_frame (update_reference a (s\<lparr>results_frame := []\<rparr>)) @
           map (\<lambda>p. analyse_region a (reference_avg (update_averages s)) (fst p) (snd p))
             (filter (non_reference (reference_rect_id s)) (enumerate_py (rectangles s)))"
proof -
  let ?u = "update_reference a (s\<lparr>results_frame := []\<rparr>)"
  have ua: "update_averages s = averages_loop a (enumerate_py (rectangles s)) ?u"
    using assms by (simp add: update_averages_def Let_def)
  have ra: "reference_avg (update_averages s) = reference_avg ?u"
    unfolding ua using averages_loop_fields by blast
  show ?thesis
    unfolding ra unfolding ua averages_loop_results by simp
qed

lemma region_label_origin:
  assumes "RegionLabel n c m d k \<in> set (results_frame (update_averages s))"
  shows "\<exists>a i r. image s = Some a \<and> i < length (rectangles s) \<and> r = rectangles s ! i \<and>
           Some (canvas_id r) \<noteq> reference_rect_id s \<and>
           RegionLabel n c m d k = analyse_region a (reference_avg (update_averages s)) i r"
proof (cases "image s = None \<or> rectangles s = []")
  case True
  from update_averages_no_regions [OF True] assms show ?thesis by simp
next
  case False
  then obtain a where a: "image s = Some a" and ne: "rectangles s \<noteq> []" by auto
  let ?u = "update_reference a (s\<lparr>results_frame := []\<rparr>)"
  have "RegionLabel n c m d k \<notin> set (results_frame ?u)"
    using update_reference_results [of a "s\<lparr>results_frame := []\<rparr>"] by auto
  with assms update_averages_results [OF a ne]
  obtain p where p: "p \<in> set (enumerate_py (rectangles s))"
      "non_reference (reference_rect_id s) p"
      "RegionLabel n c m d k = analyse_region a (reference_avg (update_averages s)) (fst p) (snd p)"
    by auto
  from p(1) have "fst p < length (rectangles s) \<and> snd p = rectangles s ! fst p"
    by (auto simp: enumerate_py_def set_zip)
  with p a show ?thesis
    by (auto simp: non_reference_def)
qed

lemma analyse_region_label:
  "analyse_region a (Some ref) i r = RegionLabel n c m d k \<Longrightarrow>
     d = Some (fabs (fsub m ref)) \<and>
     k = Some (if flt (fabs (fsub m ref)) 3 then MATCH else MISMATCH)"
  by (auto simp: analyse_region_def Let_def)

subsection \<open>Comparison with the reference\<close>


lemma scenario_eval:
  "update_averages scenario_state =
     scenario_state\<lparr>reference_avg := Some (Fin 0),
       results_frame := [RefLabel (Fin 0),
         RegionLabel 2 ''blue'' (Fin 10) (Some (Fin 10)) (Some MISMATCH),
         RegionLabel 3 ''green'' NaN (Some NaN) (Some MISMATCH)],
       canvas_next := 9\<rparr>"
  by (simp add: scenario_state_def example_image_def update_averages_def update_reference_def
      enumerate_py_def analyse_region_def region_mean_def slice2_def py_slice_def norm_index_def
      flatten_def np_mean_def canvas_create_def Let_def upt_rec)

lemma empty_reference_eval:
  "update_averages empty_reference_state =
     empty_reference_state\<lparr>reference_avg := Some NaN,
       results_frame := [RefLabel NaN,
         RegionLabel 2 ''blue'' (Fin 10) (Some NaN) (Some MISMATCH)],
       canvas_next := 6\<rparr>"
  by (simp add: empty_reference_state_def example_image_def update_averages_def
      update_reference_def enumerate_py_def analyse_region_def region_mean_def slice2_def
      py_slice_def norm_index_def flatten_def np_mean_def canvas_create_def Let_def upt_rec)

lemma region_label_fields:
  assumes "RegionLabel n c m d k \<in> set (results_frame (update_averages s))"
    and "reference_avg (update_averages s) = Some ref"
  shows "d = Some (fabs (fsub m ref)) \<and>
         k = Some (if flt (fabs (fsub m ref)) 3 then MATCH else MISMATCH)"
proof -
  from region_label_origin [OF assms(1)] obtain a i r where
    "RegionLabel n c m d k = analyse_region a (reference_avg (update_averages s)) i r"
    by blast
  then have "analyse_region a (Some ref) i r = RegionLabel n c m d k"
    using assms(2) by simp
  then show ?thesis by (rule analyse_region_label)
qed



text \<open>
  C3. The difference shown on a region label is the absolute value of the region's mean
  minus the reference mean; it is the same with the two means exchanged.
\<close>

theorem reference_diff_abs:
  assumes "RegionLabel n c m d k \<in> set (results_frame (update_averages s))"
    and "reference_avg (update_averages s) = Some ref"
  shows "d = Some (fabs (fsub m ref)) \<and> d = Some (fabs (fsub ref m)) \<and>
         (\<forall>x y. m = Fin x \<and> ref = Fin y \<longrightarrow> d = Some (Fin \<bar>x - y\<bar>) \<and> d = Some (Fin \<bar>y - x\<bar>))"
proof -
  have sym: "fabs (fsub m ref) = fabs (fsub ref m)"
    by (cases m; cases ref) (simp_all add: abs_minus_commute)
  from region_label_fields [OF assms] have d: "d = Some (fabs (fsub m ref))" by simp
  show ?thesis
    using d sym by (auto simp: abs_minus_commute)
qed

theorem reference_diff_abs_witness:
  "RegionLabel 2 ''blue'' (Fin 10) (Some (Fin 10)) (Some MISMATCH)
     \<in> set (results_frame (update_averages scenario_state)) \<and>
   reference_avg (update_averages scenario_state) = Some (Fin 0) \<and>
   Some (Fin 10) = Some (fabs (fsub (Fin 10) (Fin 0))) \<and>
   Some (Fin 10) = Some (Fin \<bar>10 - 0\<bar>) \<and> Some (Fin 10) = Some (Fin \<bar>0 - 10\<bar>)"
proof -
  have h1: "RegionLabel 2 ''blue'' (Fin 10) (Some (Fin 10)) (Some MISMATCH)
     \<in> set (results_frame (update_averages scenario_state))"
    by (simp add: scenario_eval)
  have h2: "reference_avg (update_averages scenario_state) = Some (Fin 0)"
    by (simp add: scenario_eval)
  from reference_diff_abs [OF h1 h2] h1 h2 show ?thesis by simp
qed

text \<open>
  C10. When the region's mean or the reference mean is NaN, the difference on the region's
  label is NaN and its marker is MISMATCH.
\<close>

theorem nan_is_mismatch:
  assumes "RegionLabel n c m d k \<in> set (results_frame (update_averages s))"
    and "reference_avg (update_averages s) = Some ref"
    and "m = NaN \<or> ref = NaN"
  shows "d = Some NaN \<and> k = Some MISMATCH"
proof -
  have "fabs (fsub m ref) = NaN"
    using assms(3) by (cases m; cases ref) simp_all
  with region_label_fields [OF assms(1,2)] show ?thesis by simp
qed

theorem nan_is_mismatch_witness:
  "RegionLabel 3 ''green'' NaN (Some NaN) (Some MISMATCH)
     \<in> set (results_frame (update_averages scenario_state)) \<and>
   reference_avg (update_averages scenario_state) = Some (Fin 0) \<and>
   RegionLabel 2 ''blue'' (Fin 10) (Some NaN) (Some MISMATCH)
     \<in> set (results_frame (update_averages empty_reference_state)) \<and>
   reference_avg (update_averages empty_reference_state) = Some NaN"
proof -
  have h1: "RegionLabel 3 ''green'' NaN (Some NaN) (Some MISMATCH)
     \<in> set (results_frame (update_averages scenario_state))"
    by (simp add: scenario_eval)
  have h2: "reference_avg (update_averages scenario_state) = Some (Fin 0)"
    by (simp add: scenario_eval)
  have h3: "RegionLabel 2 ''blue'' (Fin 10) (Some NaN) (Some MISMATCH)
     \<in> set (results_frame (update_averages empty_reference_state))"
    by (simp add: empty_reference_eval)
  have h4: "reference_avg (update_averages empty_reference_state) = Some NaN"
    by (simp add: empty_reference_eval)
  from nan_is_mismatch [OF h1 h2] nan_is_mismatch [OF h3 h4] h1 h2 h3 h4
  show ?thesis by simp
qed

subsection \<open>Loading and the absence of an image\<close>

text \<open>
  C7. After an image is loaded, the new image is in place, the store of regions is empty,
  no region is designated as the reference, no reference mean is kept and no result is
  shown.
\<close>

theorem load_image_clears:
  "image (load_image s (Loaded a)) = Some a \<and>
   rectangles (load_image s (Loaded a)) = [] \<and>
   reference_rect_id (load_image s (Loaded a)) = None \<and>
   reference_avg (load_image s (Loaded a)) = None \<and>
   results_frame (load_image s (Loaded a)) = []"
  by (simp add: clear_rectangles_def update_averages_no_regions)

text \<open>
  C8. Without an image, \<open>update_averages\<close> removes the results shown before, produces
  none, and changes nothing else.
\<close>

theorem no_image_no_results:
  assumes "image s = None"
  shows "update_averages s = s\<lparr>results_frame := []\<rparr> \<and> results_frame (update_averages s) = []"
  using assms by (simp add: update_averages_no_regions)

theorem no_image_no_results_witness:
  "image no_image_state = None \<and> rectangles no_image_state \<noteq> [] \<and>
   results_frame (update_averages no_image_state) = []"
proof -
  have h: "image no_image_state = None" by (simp add: no_image_state_def)
  from no_image_no_results [OF h] h show ?thesis by (simp add: no_image_state_def)
qed

subsection \<open>Slices and means\<close>

lemma py_slice_whole: "py_slice xs 0 (int (length xs)) = xs"
  by (simp add: py_slice_def norm_index_def)

lemma slice2_whole:
  assumes "wf_ndarray a"
  shows "slice2 a 0 (int (shape0 a)) 0 (int (shape1 a)) = rows a"
proof -
  from assms have len: "length (rows a) = shape0 a"
    and row: "\<And>row. row \<in> set (rows a) \<Longrightarrow> length row = shape1 a"
    by (auto simp: wf_ndarray_def list_all_iff)
  have "py_slice (rows a) 0 (int (shape0 a)) = rows a"
    using py_slice_whole [of "rows a"] len by simp
  moreover have "map (\<lambda>row. py_slice row 0 (int (shape1 a))) (rows a) = rows a"
  proof (rule map_idI)
    fix row assume "row \<in> set (rows a)"
    then have "length row = shape1 a" by (rule row)
    then show "py_slice row 0 (int (shape1 a)) = row"
      using py_slice_whole [of row] by simp
  qed
  ultimately show ?thesis by (simp add: slice2_def)
qed

lemma region_mean_covering:
  assumes "wf_ndarray a" "x1 \<le> 0" "y1 \<le> 0" "int (shape1 a) \<le> x2" "int (shape0 a) \<le> y2"
  shows "region_mean a (x1, y1, x2, y2) = np_mean (flatten (rows a))"
proof -
  have "clamp_bounds a (x1, y1, x2, y2) = (0, 0, int (shape1 a), int (shape0 a))"
    using assms by (simp add: max_def min_def)
  then show ?thesis
    by (simp add: region_mean_def slice2_whole [OF assms(1)])
qed

text \<open>
  C1. With one region in the store, the reference as the first region always is, whose
  bounds reach or exceed the image on every side, the mean computed is the sum of all
  values of the pixel array, over all rows, columns and channels, divided by their
  number (NaN only for an array without values).
\<close>

theorem whole_image_mean:
  assumes "wf_ndarray a" and "image s = Some a"
    and "rectangles s = [(x1, y1, x2, y2, c, cid)]"
    and "reference_rect_id s = Some cid" and "cid \<noteq> 0"
    and "x1 \<le> 0" and "y1 \<le> 0" and "int (shape1 a) \<le> x2" and "int (shape0 a) \<le> y2"
  shows "reference_avg (update_averages s) =
           Some (if concat (concat (rows a)) = [] then NaN
                 else Fin (real_of_int (sum_list (concat (concat (rows a)))) /
                           real (length (concat (concat (rows a)))))) \<and>
         results_frame (update_averages s) = [RefLabel (the (reference_avg (update_averages s)))]"
proof -
  let ?m = "np_mean (flatten (rows a))"
  let ?s0 = "s\<lparr>results_frame := []\<rparr>"
  have m: "region_mean a (x1, y1, x2, y2) = ?m"
    using assms(1,6-9) by (rule region_mean_covering)
  have u: "update_reference a ?s0 = ?s0\<lparr>reference_avg := Some ?m, results_frame := [RefLabel ?m]\<rparr>"
    using assms(3-5) m by (simp add: update_reference_def Let_def)
  have ne: "rectangles s \<noteq> []" using assms(3) by simp
  have f: "filter (non_reference (reference_rect_id s)) (enumerate_py (rectangles s)) = []"
    using assms(3,4) by (simp add: enumerate_py_def non_reference_def)
  have r: "results_frame (update_averages s) = [RefLabel ?m]"
    using update_averages_results [OF assms(2) ne] u f by simp
  have "update_averages s = averages_loop a (enumerate_py (rectangles s)) (update_reference a ?s0)"
    using assms(2) ne by (simp add: update_averages_def Let_def)
  then have "reference_avg (update_averages s) = reference_avg (update_reference a ?s0)"
    using averages_loop_fields by simp
  then have "reference_avg (update_averages s) = Some ?m"
    using u by simp
  with r show ?thesis by (simp add: np_mean_def flatten_def)
qed

lemma covering_wf: "wf_ndarray example_image"
  by (simp add: wf_ndarray_def example_image_def)

theorem whole_image_mean_witness:
  "wf_ndarray example_image \<and> image covering_state = Some example_image \<and>
   rectangles covering_state = [(- 1, - 2, 7, 9, ''red'', 2)] \<and>
   reference_rect_id covering_state = Some 2 \<and>
   reference_avg (update_averages covering_state) = Some (Fin 5) \<and>
   results_frame (update_averages covering_state) = [RefLabel (Fin 5)]"
proof -
  have h2: "image covering_state = Some example_image"
    and h3: "rectangles covering_state = [(- 1, - 2, 7, 9, ''red'', 2)]"
    and h4: "reference_rect_id covering_state = Some 2"
    by (simp_all add: covering_state_def)
  have h5: "(2::nat) \<noteq> 0" by simp
  have h: "- 1 \<le> (0::int)" "- 2 \<le> (0::int)" "int (shape1 example_image) \<le> 7"
    "int (shape0 example_image) \<le> 9"
    by (simp_all add: example_image_def)
  from whole_image_mean [OF covering_wf h2 h3 h4 h5 h] covering_wf h2 h3 h4
  show ?thesis by (simp add: example_image_def)
qed

subsection \<open>Clamping\<close>

lemma find_distinct_nth:
  "distinct (map f xs) \<Longrightarrow> i < length xs \<Longrightarrow> find (\<lambda>x. f x = f (xs ! i)) xs = Some (xs ! i)"
proof (induction xs arbitrary: i)
  case Nil
  then show ?case by simp
next
  case (Cons x xs)
  show ?case
  proof (cases i)
    case 0
    then show ?thesis by simp
  next
    case (Suc j)
    with Cons.prems have "f (xs ! j) \<in> f ` set xs" by simp
    with Cons.prems have "f x \<noteq> f (xs ! j)" by auto
    with Cons Suc show ?thesis by simp
  qed
qed

lemma enumerate_py_nth: "i < length xs \<Longrightarrow> (i, xs ! i) \<in> set (enumerate_py xs)"
proof -
  assume "i < length xs"
  then have "zip [0..<length xs] xs ! i = (i, xs ! i)" and "i < length (zip [0..<length xs] xs)"
    by simp_all
  then show ?thesis
    unfolding enumerate_py_def by (metis nth_mem)
qed

lemma analyse_region_mean:
  "\<exists>d k. analyse_region a ref i (x1, y1, x2, y2, c, cid) =
           RegionLabel (i + 1) c (region_mean a (x1, y1, x2, y2)) d k"
  by (cases ref) (simp_all add: analyse_region_def Let_def)

text \<open>
  C5. The mean of a region is the mean of the slice with the bounds
  \<open>max 0 x1\<close>, \<open>max 0 y1\<close>, \<open>min W x2\<close>, \<open>min H y2\<close>. Whatever the bounds are, a stored
  region that is not the reference gets a label with this mean, and the reference region
  gives the reference mean and its label this value: no bounds lead to an error.
\<close>

theorem clamped_region_means:
  assumes "image s = Some a" and "i < length (rectangles s)"
    and "rectangles s ! i = (x1, y1, x2, y2, c, cid)"
  shows "let m = np_mean (flatten (slice2 a (max 0 y1) (min (int (shape0 a)) y2)
                                            (max 0 x1) (min (int (shape1 a)) x2)))
         in clamp_bounds a (x1, y1, x2, y2) =
              (max 0 x1, max 0 y1, min (int (shape1 a)) x2, min (int (shape0 a)) y2) \<and>
            region_mean a (x1, y1, x2, y2) = m \<and>
            (Some cid \<noteq> reference_rect_id s \<longrightarrow>
               (\<exists>d k. RegionLabel (i + 1) c m d k \<in> set (results_frame (update_averages s)))) \<and>
            (Some cid = reference_rect_id s \<and> cid \<noteq> 0 \<and>
             distinct (map canvas_id (rectangles s)) \<longrightarrow>
               reference_avg (update_averages s) = Some m \<and>
               RefLabel m \<in> set (results_frame (update_averages s)))"
proof -
  let ?r = "(x1, y1, x2, y2, c, cid)"
  let ?m = "region_mean a (x1, y1, x2, y2)"
  let ?s0 = "s\<lparr>results_frame := []\<rparr>"
  have ne: "rectangles s \<noteq> []" using assms(2) by auto
  have res: "results_frame (update_averages s) =
           results_frame (update_reference a ?s0) @
           map (\<lambda>p. analyse_region a (reference_avg (update_averages s)) (fst p) (snd p))
             (filter (non_reference (reference_rect_id s)) (enumerate_py (rectangles s)))"
    using assms(1) ne by (rule update_averages_results)
  have m: "?m = np_mean (flatten (slice2 a (max 0 y1) (min (int (shape0 a)) y2)
                                            (max 0 x1) (min (int (shape1 a)) x2)))"
    by (simp add: region_mean_def)
  have nonref: "\<exists>d k. RegionLabel (i + 1) c ?m d k \<in> set (results_frame (update_averages s))"
    if nr: "Some cid \<noteq> reference_rect_id s"
  proof -
    have "(i, ?r) \<in> set (enumerate_py (rectangles s))"
      using enumerate_py_nth [OF assms(2)] assms(3) by simp
    moreover have "non_reference (reference_rect_id s) (i, ?r)"
      using nr by (simp add: non_reference_def)
    ultimately have "analyse_region a (reference_avg (update_averages s)) i ?r
        \<in> set (results_frame (update_averages s))"
      unfolding res by force
    note mem = this
    obtain d k where
      "analyse_region a (reference_avg (update_averages s)) i ?r = RegionLabel (i + 1) c ?m d k"
      using analyse_region_mean by blast
    with mem have "RegionLabel (i + 1) c ?m d k \<in> set (results_frame (update_averages s))"
      by simp
    then show ?thesis by blast
  qed
  have isref: "reference_avg (update_averages s) = Some ?m \<and>
               RefLabel ?m \<in> set (results_frame (update_averages s))"
    if r: "Some cid = reference_rect_id s" and z: "cid \<noteq> 0"
      and d: "distinct (map canvas_id (rectangles s))"
  proof -
    have "find (\<lambda>x. canvas_id x = canvas_id (rectangles s ! i)) (rectangles s)
            = Some (rectangles s ! i)"
      using d assms(2) by (rule find_distinct_nth)
    then have "find (\<lambda>r. Some (canvas_id r) = reference_rect_id s) (rectangles s) = Some ?r"
      using assms(3) r [symmetric] by simp
    then have u: "update_reference a ?s0 =
        ?s0\<lparr>reference_avg := Some ?m, results_frame := [RefLabel ?m]\<rparr>"
      using r [symmetric] z by (simp add: update_reference_def Let_def)
    have "update_averages s =
        averages_loop a (enumerate_py (rectangles s)) (update_reference a ?s0)"
      using assms(1) ne by (simp add: update_averages_def Let_def)
    then have "reference_avg (update_averages s) = reference_avg (update_reference a ?s0)"
      using averages_loop_fields by simp
    with u res show ?thesis by simp
  qed
  show ?thesis
    unfolding Let_def m [symmetric] using nonref isref by simp
qed

lemma scenario_facts:
  "image scenario_state = Some example_image"
  "rectangles scenario_state ! 0 = (0, 0, 2, 4, ''red'', 2)"
  "rectangles scenario_state ! 2 = (5, 5, 6, 6, ''green'', 6)"
  "reference_rect_id scenario_state = Some 2"
  "length (rectangles scenario_state) = 3"
  "distinct (map canvas_id (rectangles scenario_state))"
  by (simp_all add: scenario_state_def)

theorem clamped_region_means_witness:
  "clamp_bounds example_image (5, 5, 6, 6) = (5, 5, 4, 4) \<and>
   Some 6 \<noteq> reference_rect_id scenario_state \<and>
   (\<exists>d k. RegionLabel 3 ''green'' NaN d k
            \<in> set (results_frame (update_averages scenario_state))) \<and>
   Some 2 = reference_rect_id scenario_state \<and>
   distinct (map canvas_id (rectangles scenario_state)) \<and>
   reference_avg (update_averages scenario_state) = Some (Fin 0) \<and>
   RefLabel (Fin 0) \<in> set (results_frame (update_averages scenario_state))"
proof -
  have l0: "0 < length (rectangles scenario_state)"
    and l2: "2 < length (rectangles scenario_state)"
    by (simp_all add: scenario_facts)
  have m0: "np_mean (flatten (slice2 example_image (max 0 0) (min (int (shape0 example_image)) 4)
                      (max 0 0) (min (int (shape1 example_image)) 2))) = Fin 0"
    by (simp add: example_image_def slice2_def py_slice_def norm_index_def flatten_def
        np_mean_def)
  have m2: "np_mean (flatten (slice2 example_image (max 0 5) (min (int (shape0 example_image)) 6)
                      (max 0 5) (min (int (shape1 example_image)) 6))) = NaN"
    by (simp add: example_image_def slice2_def py_slice_def norm_index_def flatten_def
        np_mean_def)
  from clamped_region_means [OF scenario_facts(1) l0 scenario_facts(2)]
    clamped_region_means [OF scenario_facts(1) l2 scenario_facts(3)]
  show ?thesis
    unfolding Let_def m0 m2 by (simp add: scenario_facts example_image_def)
qed

subsection \<open>Regions outside the image\<close>

text \<open>
  A region whose upper bounds are not negative and whose clamped bounds leave no column or
  no row has the mean NaN: the slice is empty, and the mean of an empty array is NaN.
\<close>

lemma py_slice_empty:
  "0 \<le> lo \<Longrightarrow> 0 \<le> hi \<Longrightarrow> hi \<le> lo \<Longrightarrow> py_slice xs lo hi = []"
  by (simp add: py_slice_def norm_index_def Let_def)

lemma empty_slice_mean:
  assumes "0 \<le> x2" and "0 \<le> y2"
    and "min (int (shape1 a)) x2 \<le> max 0 x1 \<or> min (int (shape0 a)) y2 \<le> max 0 y1"
  shows "region_mean a (x1, y1, x2, y2) = NaN"
proof -
  let ?x1 = "max 0 x1" and ?y1 = "max 0 y1"
  let ?x2 = "min (int (shape1 a)) x2" and ?y2 = "min (int (shape0 a)) y2"
  have nn: "0 \<le> ?x1" "0 \<le> ?y1" "0 \<le> ?x2" "0 \<le> ?y2"
    using assms(1,2) by simp_all
  have c: "concat (slice2 a ?y1 ?y2 ?x1 ?x2) = []"
  proof (cases "?y2 \<le> ?y1")
    case True
    with nn have "py_slice (rows a) ?y1 ?y2 = []" by (intro py_slice_empty)
    then show ?thesis by (simp add: slice2_def)
  next
    case False
    with assms(3) have "?x2 \<le> ?x1" by simp
    with nn have e: "py_slice row ?x1 ?x2 = []" for row by (intro py_slice_empty)
    show ?thesis by (simp add: slice2_def e)
  qed
  have "flatten (slice2 a ?y1 ?y2 ?x1 ?x2) = []"
    unfolding flatten_def c by simp
  then show ?thesis
    by (simp add: region_mean_def np_mean_def)
qed

text \<open>
  C4. The region from (-3,-3) to (-1,-1) lies outside the example image. Its clamped upper
  bounds are -1, which as slice indices count from the end of the array: the slice is the
  3 by 3 block at the top left of the image, and the region's mean is 10/3, not NaN.
\<close>

theorem negative_region_mean_defined:
  "clamp_bounds example_image (- 3, - 3, - 1, - 1) = (0, 0, - 1, - 1) \<and>
   slice2 example_image 0 (- 1) 0 (- 1) =
     [[[0], [0], [10]], [[0], [0], [10]], [[0], [0], [10]]] \<and>
   region_mean example_image (- 3, - 3, - 1, - 1) = Fin (10 / 3) \<and>
   run [LoadImage (Loaded example_image), Press (- 3) (- 3), Release (- 1) (- 1)]
     = Inr negative_region_state"
  by (simp add: example_image_def negative_region_state_def run_def init_def on_press_def
      on_release_def current_color_def colors_def clear_rectangles_def canvas_create_def
      update_averages_def update_reference_def enumerate_py_def region_mean_def slice2_def
      py_slice_def norm_index_def flatten_def np_mean_def Let_def)

subsection \<open>The invariant of the reachable states\<close>

lemma store_inv_init: "store_inv init"
  by (simp add: store_inv_def init_def colors_def)

lemma update_averages_reference_avg_empty:
  "rectangles s = [] \<Longrightarrow> reference_avg (update_averages s) = reference_avg s"
  by (simp add: update_averages_no_regions)

lemma store_inv_update_averages:
  assumes "store_inv s"
  shows "store_inv (update_averages s)"
proof -
  have le: "canvas_next s \<le> canvas_next (update_averages s)"
    by (rule update_averages_canvas_next)
  have e: "rectangles s = [] \<longrightarrow> reference_avg (update_averages s) = None"
    using assms by (simp add: store_inv_def update_averages_reference_avg_empty)
  show ?thesis
    unfolding store_inv_def update_averages_fields
    using assms le e by (auto simp: store_inv_def split: option.splits)
qed

lemma store_inv_clear_rectangles:
  assumes "store_inv s"
  shows "store_inv (clear_rectangles s)"
proof -
  have "store_inv (s\<lparr>rectangles := [], reference_rect_id := None, reference_avg := None\<rparr>)"
    using assms by (simp add: store_inv_def split: option.splits)
  then show ?thesis
    unfolding clear_rectangles_def by (rule store_inv_update_averages)
qed

lemma store_inv_canvas_create:
  "store_inv s \<Longrightarrow> store_inv (canvas_create s)"
  by (auto simp: store_inv_def split: option.splits)

lemma store_inv_load_image:
  assumes "store_inv s"
  shows "store_inv (load_image s out)"
proof (cases out)
  case (PhotoFailed a)
  with assms show ?thesis by (simp add: store_inv_def split: option.splits)
next
  case (Loaded a)
  from assms have "store_inv (s\<lparr>image := Some a\<rparr>)"
    by (simp add: store_inv_def split: option.splits)
  then have "store_inv (clear_rectangles (canvas_create (s\<lparr>image := Some a\<rparr>)))"
    by (intro store_inv_clear_rectangles store_inv_canvas_create)
  with Loaded show ?thesis by simp
qed (use assms in simp_all)

lemma current_color_ok:
  "current_color_index s < length colors \<Longrightarrow>
     current_color s = Inr (colors ! current_color_index s)"
  by (simp add: current_color_def)

lemma on_press_ok:
  assumes "store_inv s"
  shows "on_press s x y =
           Inr ((canvas_create (s\<lparr>start_x := Some x, start_y := Some y\<rparr>))
                  \<lparr>current_rect := Some (canvas_next s)\<rparr>)"
proof -
  from assms have "current_color_index s < length colors" by (simp add: store_inv_def)
  then have "current_color (s\<lparr>start_x := Some x, start_y := Some y\<rparr>)
      = Inr (colors ! current_color_index s)"
    by (simp add: current_color_def)
  then show ?thesis by (simp add: on_press_def Let_def)
qed

lemma store_inv_on_press:
  assumes "store_inv s"
  shows "\<exists>s'. on_press s x y = Inr s' \<and> store_inv s'"
proof -
  have "store_inv ((canvas_create (s\<lparr>start_x := Some x, start_y := Some y\<rparr>))
                  \<lparr>current_rect := Some (canvas_next s)\<rparr>)"
    using assms by (auto simp: store_inv_def canvas_create_def split: option.splits)
  with on_press_ok [OF assms] show ?thesis by simp
qed

text \<open>The state in which \<open>on_release\<close> calls \<open>update_averages\<close>.\<close>

lemma on_release_ok:
  assumes "store_inv s" and "current_rect s = Some cur"
  shows "\<exists>sx sy. start_x s = Some sx \<and> start_y s = Some sy \<and>
           on_release s ex ey =
             Inr ((update_averages
                     ((if rectangles s = []
                       then canvas_create (s\<lparr>reference_rect_id := Some cur\<rparr>) else s)
                      \<lparr>rectangles := rectangles s @
                          [(min sx ex, min sy ey, max sx ex, max sy ey,
                            colors ! current_color_index s, cur)],
                        current_rect := None\<rparr>))
                  \<lparr>current_color_index := (current_color_index s + 1) mod length colors\<rparr>)"
proof -
  from assms obtain sx sy where st: "start_x s = Some sx" "start_y s = Some sy"
    and nz: "cur \<noteq> 0" and idx: "current_color_index s < length colors"
    by (auto simp: store_inv_def)
  let ?s1 = "if rectangles s = [] then canvas_create (s\<lparr>reference_rect_id := Some cur\<rparr>) else s"
  have c: "current_color ?s1 = Inr (colors ! current_color_index s)"
    using idx by (simp add: current_color_def)
  have r: "rectangles ?s1 = rectangles s" by simp
  show ?thesis
    using assms(2) st nz c r by (simp add: on_release_def Let_def)
qed

lemma store_inv_on_release:
  assumes "store_inv s"
  shows "\<exists>s'. on_release s ex ey = Inr s' \<and> store_inv s'"
proof (cases "current_rect s")
  case None
  with assms show ?thesis by (simp add: on_release_def)
next
  case (Some cur)
  from on_release_ok [OF assms Some, of ex ey] obtain sx sy where
    eq: "on_release s ex ey =
             Inr ((update_averages
                     ((if rectangles s = []
                       then canvas_create (s\<lparr>reference_rect_id := Some cur\<rparr>) else s)
                      \<lparr>rectangles := rectangles s @
                          [(min sx ex, min sy ey, max sx ex, max sy ey,
                            colors ! current_color_index s, cur)],
                        current_rect := None\<rparr>))
                  \<lparr>current_color_index := (current_color_index s + 1) mod length colors\<rparr>)"
    by blast
  let ?new = "(min sx ex, min sy ey, max sx ex, max sy ey, colors ! current_color_index s, cur)"
  let ?s2 = "(if rectangles s = []
              then canvas_create (s\<lparr>reference_rect_id := Some cur\<rparr>) else s)
             \<lparr>rectangles := rectangles s @ [?new], current_rect := None\<rparr>"
  have cur: "cur \<noteq> 0" "cur < canvas_next s" "cur \<notin> set (map canvas_id (rectangles s))"
    using assms Some by (auto simp: store_inv_def)
  have "store_inv ?s2"
  proof (cases "rectangles s")
    case Nil
    with assms cur show ?thesis by (auto simp: store_inv_def)
  next
    case (Cons r rs)
    with assms cur show ?thesis by (auto simp: store_inv_def)
  qed
  then have "store_inv (update_averages ?s2)" by (rule store_inv_update_averages)
  then have "store_inv ((update_averages ?s2)
      \<lparr>current_color_index := (current_color_index s + 1) mod length colors\<rparr>)"
    by (simp add: store_inv_def colors_def split: option.splits)
  with eq show ?thesis by simp
qed

lemma store_inv_step:
  assumes "store_inv s"
  shows "\<exists>s'. step s e = Inr s' \<and> store_inv s'"
proof (cases e)
  case (LoadImage out)
  with assms show ?thesis by (simp add: store_inv_load_image)
next
  case (Press x y)
  with store_inv_on_press [OF assms] show ?thesis by simp
next
  case (Drag x y)
  with assms show ?thesis by (simp add: on_drag_def)
next
  case (Release x y)
  with store_inv_on_release [OF assms] show ?thesis by simp
next
  case ClearRectangles
  with assms show ?thesis by (simp add: store_inv_clear_rectangles)
qed

lemma store_inv_run_from:
  "store_inv s \<Longrightarrow> \<exists>s'. run_from s es = Inr s' \<and> store_inv s'"
proof (induction es arbitrary: s)
  case Nil
  then show ?case by simp
next
  case (Cons e es)
  from store_inv_step [OF Cons.prems] obtain s1 where
    s1: "step s e = Inr s1" "store_inv s1" by blast
  from Cons.IH [OF s1(2)] s1(1) show ?case by simp
qed

text \<open>No sequence of events raises an exception, and every state reached satisfies the
  invariant.\<close>

lemma run_total: "\<exists>s. run es = Inr s \<and> store_inv s"
  unfolding run_def by (rule store_inv_run_from [OF store_inv_init])

lemma run_store_inv: "run es = Inr s \<Longrightarrow> store_inv s"
  using run_total [of es] by auto

subsection \<open>The store of regions and its reference\<close>

lemma two_regions_run: "run two_regions_events = Inr two_regions_state"
  by (simp add: two_regions_events_def two_regions_state_def example_image_def run_def init_def
      on_press_def on_drag_def on_release_def current_color_def colors_def clear_rectangles_def
      canvas_create_def update_averages_def update_reference_def enumerate_py_def
      analyse_region_def region_mean_def slice2_def py_slice_def norm_index_def flatten_def
      np_mean_def Let_def upt_rec)

lemma clear_rectangles_fields [simp]:
  "rectangles (clear_rectangles s) = []"
  "reference_rect_id (clear_rectangles s) = None"
  "reference_avg (clear_rectangles s) = None"
  by (simp_all add: clear_rectangles_def update_averages_no_regions)

lemma load_image_rectangles:
  "rectangles (load_image s out) = [] \<and> reference_rect_id (load_image s out) = None \<or>
   rectangles (load_image s out) = rectangles s \<and>
   reference_rect_id (load_image s out) = reference_rect_id s"
  by (cases out) simp_all

text \<open>What a step does to the store: it is emptied, left as it is, or extended at the end
  by one rectangle with ordered bounds; and the reference changes only when the store is
  emptied or was empty.\<close>

lemma step_store:
  assumes "store_inv s"
  shows "\<exists>s'. step s e = Inr s' \<and>
           (rectangles s' = [] \<and> reference_rect_id s' = None \<or>
            rectangles s' = rectangles s \<and> reference_rect_id s' = reference_rect_id s \<or>
            (\<exists>new. rectangles s' = rectangles s @ [new] \<and> ordered new \<and>
                   (rectangles s \<noteq> [] \<longrightarrow> reference_rect_id s' = reference_rect_id s)))"
proof (cases e)
  case (LoadImage out)
  with load_image_rectangles [of s out] show ?thesis by auto
next
  case (Press x y)
  with on_press_ok [OF assms, of x y] show ?thesis by simp
next
  case (Drag x y)
  then show ?thesis by (simp add: on_drag_def)
next
  case (Release ex ey)
  show ?thesis
  proof (cases "current_rect s")
    case None
    with Release show ?thesis by (simp add: on_release_def)
  next
    case (Some cur)
    from on_release_ok [OF assms Some, of ex ey] Release show ?thesis
      by auto
  qed
next
  case ClearRectangles
  then show ?thesis by simp
qed

lemma press_release_store:
  assumes "store_inv s"
  shows "\<exists>s1 s2 c cid. on_press s x y = Inr s1 \<and> on_release s1 ex ey = Inr s2 \<and> cid \<noteq> 0 \<and>
           rectangles s2 = rectangles s @ [(min x ex, min y ey, max x ex, max y ey, c, cid)] \<and>
           (rectangles s = [] \<longrightarrow> reference_rect_id s2 = Some cid)"
proof -
  let ?s1 = "(canvas_create (s\<lparr>start_x := Some x, start_y := Some y\<rparr>))
               \<lparr>current_rect := Some (canvas_next s)\<rparr>"
  have p: "on_press s x y = Inr ?s1" by (rule on_press_ok [OF assms])
  from store_inv_on_press [OF assms, of x y] p have inv1: "store_inv ?s1" by simp
  have cur: "current_rect ?s1 = Some (canvas_next s)" by simp
  have nz: "canvas_next s \<noteq> 0" using assms by (simp add: store_inv_def)
  from on_release_ok [OF inv1 cur, of ex ey] nz p show ?thesis
    by auto
qed

lemma filter_distinct_le_one:
  "distinct (map f xs) \<Longrightarrow> length (filter (\<lambda>x. v = f x) xs) \<le> 1"
proof (induction xs)
  case Nil
  then show ?case by simp
next
  case (Cons x xs)
  show ?case
  proof (cases "v = f x")
    case True
    with Cons.prems have "\<forall>y \<in> set xs. v \<noteq> f y" by auto
    then have "filter (\<lambda>x. v = f x) xs = []" by (simp add: filter_empty_conv)
    with True show ?thesis by simp
  next
    case False
    with Cons show ?thesis by simp
  qed
qed

text \<open>
  C9. In every state the application reaches, each stored rectangle has bounds with
  \<open>x1 \<le> x2\<close> and \<open>y1 \<le> y2\<close>. A press at (x, y) followed by a release at (ex, ey), in
  whatever direction, succeeds and appends the rectangle with the bounds
  \<open>min x ex\<close>, \<open>min y ey\<close>, \<open>max x ex\<close>, \<open>max y ey\<close>. No event changes a stored rectangle:
  an event empties the store, leaves it as it is, or appends one rectangle.
\<close>

theorem stored_bounds_ordered:
  assumes "run evs = Inr s"
  shows "(\<forall>r \<in> set (rectangles s). ordered r) \<and>
         (\<forall>x y ex ey. \<exists>s1 s2 c cid. on_press s x y = Inr s1 \<and> on_release s1 ex ey = Inr s2 \<and>
            rectangles s2 =
              rectangles s @ [(min x ex, min y ey, max x ex, max y ey, c, cid)]) \<and>
         (\<forall>e. \<exists>s'. step s e = Inr s' \<and>
            (rectangles s' = [] \<or> rectangles s' = rectangles s \<or>
             (\<exists>new. rectangles s' = rectangles s @ [new])))"
proof -
  have inv: "store_inv s" using assms by (rule run_store_inv)
  then have "\<forall>r \<in> set (rectangles s). ordered r" by (simp add: store_inv_def)
  moreover have "\<exists>s1 s2 c cid. on_press s x y = Inr s1 \<and> on_release s1 ex ey = Inr s2 \<and>
            rectangles s2 =
              rectangles s @ [(min x ex, min y ey, max x ex, max y ey, c, cid)]"
    for x y ex ey
    using press_release_store [OF inv, of x y ex ey] by blast
  moreover have "\<exists>s'. step s e = Inr s' \<and>
            (rectangles s' = [] \<or> rectangles s' = rectangles s \<or>
             (\<exists>new. rectangles s' = rectangles s @ [new]))" for e
    using step_store [OF inv, of e] by blast
  ultimately show ?thesis by blast
qed

theorem stored_bounds_ordered_witness:
  "run two_regions_events = Inr two_regions_state \<and>
   rectangles two_regions_state = [(0, 0, 2, 4, ''red'', 2), (2, 0, 4, 4, ''blue'', 4)] \<and>
   ordered (0, 0, 2, 4, ''red'', 2) \<and> ordered (2, 0, 4, 4, ''blue'', 4) \<and>
   (\<exists>s1 s2 c cid. on_press two_regions_state 3 1 = Inr s1 \<and> on_release s1 1 3 = Inr s2 \<and>
      rectangles s2 = [(0, 0, 2, 4, ''red'', 2), (2, 0, 4, 4, ''blue'', 4), (1, 1, 3, 3, c, cid)])"
proof -
  have r: "rectangles two_regions_state = [(0, 0, 2, 4, ''red'', 2), (2, 0, 4, 4, ''blue'', 4)]"
    by (simp add: two_regions_state_def)
  from stored_bounds_ordered [OF two_regions_run]
  have o: "\<forall>r \<in> set (rectangles two_regions_state). ordered r"
    and "\<exists>s1 s2 c cid. on_press two_regions_state 3 1 = Inr s1 \<and> on_release s1 1 3 = Inr s2 \<and>
      rectangles s2 = rectangles two_regions_state @ [(min 3 1, min 1 3, max 3 1, max 1 3, c, cid)]"
    by blast+
  then show ?thesis
    using two_regions_run r by (simp del: ordered.simps)
qed

text \<open>
  C6. After \<open>clear_rectangles\<close> the store is empty and neither a reference nor a reference
  mean is kept; the region added next is the reference. In every state the application
  reaches, at most one stored region has the reference's identifier; the reference is the
  first stored region, and there is none when the store is empty; and no event changes the
  reference of a non-empty store, unless it empties the store.
\<close>

theorem reference_discipline:
  assumes "run evs = Inr s"
  shows "rectangles (clear_rectangles s) = [] \<and>
         reference_rect_id (clear_rectangles s) = None \<and>
         reference_avg (clear_rectangles s) = None \<and>
         (\<forall>x y ex ey. \<exists>s1 s2 c cid.
            on_press (clear_rectangles s) x y = Inr s1 \<and> on_release s1 ex ey = Inr s2 \<and>
            rectangles s2 = [(min x ex, min y ey, max x ex, max y ey, c, cid)] \<and>
            reference_rect_id s2 = Some cid) \<and>
         length (filter (\<lambda>r. reference_rect_id s = Some (canvas_id r)) (rectangles s)) \<le> 1 \<and>
         reference_rect_id s =
           (case rectangles s of [] \<Rightarrow> None | r # rs \<Rightarrow> Some (canvas_id r)) \<and>
         (\<forall>e. \<exists>s'. step s e = Inr s' \<and>
            (rectangles s \<noteq> [] \<longrightarrow>
               rectangles s' = [] \<and> reference_rect_id s' = None \<or>
               rectangles s' \<noteq> [] \<and> reference_rect_id s' = reference_rect_id s))"
proof -
  have inv: "store_inv s" using assms by (rule run_store_inv)
  then have invc: "store_inv (clear_rectangles s)" by (rule store_inv_clear_rectangles)
  have next_ref: "\<exists>s1 s2 c cid.
            on_press (clear_rectangles s) x y = Inr s1 \<and> on_release s1 ex ey = Inr s2 \<and>
            rectangles s2 = [(min x ex, min y ey, max x ex, max y ey, c, cid)] \<and>
            reference_rect_id s2 = Some cid" for x y ex ey
    using press_release_store [OF invc, of x y ex ey] by auto
  have one: "length (filter (\<lambda>r. reference_rect_id s = Some (canvas_id r)) (rectangles s)) \<le> 1"
  proof (cases "reference_rect_id s")
    case None
    then show ?thesis by simp
  next
    case (Some v)
    from inv have "distinct (map canvas_id (rectangles s))" by (simp add: store_inv_def)
    from filter_distinct_le_one [OF this, of v] Some show ?thesis by simp
  qed
  have first: "reference_rect_id s =
           (case rectangles s of [] \<Rightarrow> None | r # rs \<Rightarrow> Some (canvas_id r))"
    using inv by (simp add: store_inv_def)
  have keep: "\<exists>s'. step s e = Inr s' \<and>
            (rectangles s \<noteq> [] \<longrightarrow>
               rectangles s' = [] \<and> reference_rect_id s' = None \<or>
               rectangles s' \<noteq> [] \<and> reference_rect_id s' = reference_rect_id s)" for e
    using step_store [OF inv, of e] by auto
  show ?thesis
    using next_ref one first keep by simp
qed

theorem reference_discipline_witness:
  "run two_regions_events = Inr two_regions_state \<and>
   rectangles two_regions_state \<noteq> [] \<and>
   rectangles (clear_rectangles two_regions_state) = [] \<and>
   reference_rect_id (clear_rectangles two_regions_state) = None \<and>
   reference_avg (clear_rectangles two_regions_state) = None \<and>
   (\<exists>s1 s2 c cid.
      on_press (clear_rectangles two_regions_state) 3 1 = Inr s1 \<and> on_release s1 1 3 = Inr s2 \<and>
      rectangles s2 = [(1, 1, 3, 3, c, cid)] \<and> reference_rect_id s2 = Some cid) \<and>
   length (filter (\<lambda>r. reference_rect_id two_regions_state = Some (canvas_id r))
             (rectangles two_regions_state)) \<le> 1 \<and>
   reference_rect_id two_regions_state = Some 2 \<and>
   (\<exists>s'. step two_regions_state (Release 9 9) = Inr s' \<and> rectangles s' \<noteq> [] \<and>
          reference_rect_id s' = Some 2)"
proof -
  have r: "rectangles two_regions_state = [(0, 0, 2, 4, ''red'', 2), (2, 0, 4, 4, ''blue'', 4)]"
    and f: "reference_rect_id two_regions_state = Some 2"
    by (simp_all add: two_regions_state_def)
  from reference_discipline [OF two_regions_run]
  have a: "rectangles (clear_rectangles two_regions_state) = []"
      "reference_rect_id (clear_rectangles two_regions_state) = None"
      "reference_avg (clear_rectangles two_regions_state) = None"
    and b: "\<exists>s1 s2 c cid.
      on_press (clear_rectangles two_regions_state) 3 1 = Inr s1 \<and> on_release s1 1 3 = Inr s2 \<and>
      rectangles s2 = [(min 3 1, min 1 3, max 3 1, max 1 3, c, cid)] \<and>
      reference_rect_id s2 = Some cid"
    and c: "length (filter (\<lambda>r. reference_rect_id two_regions_state = Some (canvas_id r))
             (rectangles two_regions_state)) \<le> 1"
    and d: "\<exists>s'. step two_regions_state (Release 9 9) = Inr s' \<and>
            (rectangles two_regions_state \<noteq> [] \<longrightarrow>
               rectangles s' = [] \<and> reference_rect_id s' = None \<or>
               rectangles s' \<noteq> [] \<and>
               reference_rect_id s' = reference_rect_id two_regions_state)"
    by blast+
  have e: "step two_regions_state (Release 9 9) = Inr two_regions_state"
    by (simp add: on_release_def two_regions_state_def)
  show ?thesis
    using two_regions_run a b c d e r f by simp
qed

end
